theory Spec2Isabelle
  imports Main "HOL-Library.List_Lexorder"
begin

section \<open>Python strings and dictionaries\<close>

text \<open>
  A Python \<open>str\<close> is a sequence of Unicode code points, and \<open>len\<close>, slicing and
  \<open>in\<close> count code points. It is modelled as a list of naturals. A literal of the
  source is written \<open>u ''...''\<close> for its ASCII runs and with the numeric code point
  for every other character (233 is e-acute, 10 is the line feed, 39 the apostrophe).
\<close>

type_synonym pystr = "nat list"

definition u :: "string \<Rightarrow> pystr" where
  "u s = map of_char s"

text \<open>
  The code points for which \<open>str.isspace\<close> holds. \<open>str.strip()\<close>, \<open>str.split()\<close>
  and the class \<open>\s\<close> of \<open>re\<close> on a \<open>str\<close> pattern all use this set.
\<close>

definition is_space :: "nat \<Rightarrow> bool" where
  "is_space c \<longleftrightarrow>
     (9 \<le> c \<and> c \<le> 13) \<or> (28 \<le> c \<and> c \<le> 32) \<or> c = 133 \<or> c = 160 \<or> c = 5760 \<or>
     (8192 \<le> c \<and> c \<le> 8202) \<or> c = 8232 \<or> c = 8233 \<or> c = 8239 \<or> c = 8287 \<or>
     c = 12288"

definition lstrip :: "pystr \<Rightarrow> pystr" where
  "lstrip s = dropWhile is_space s"

definition rstrip :: "pystr \<Rightarrow> pystr" where
  "rstrip s = rev (dropWhile is_space (rev s))"

definition strip :: "pystr \<Rightarrow> pystr" where
  "strip s = rstrip (lstrip s)"

text \<open>\<open>sub in s\<close> on two strings: \<open>sub\<close> occurs in \<open>s\<close> as a contiguous run.\<close>

fun startswith :: "'a list \<Rightarrow> 'a list \<Rightarrow> bool" where
  "startswith s [] = True"
| "startswith [] (p # ps) = False"
| "startswith (c # cs) (p # ps) = (c = p \<and> startswith cs ps)"

fun py_in :: "'a list \<Rightarrow> 'a list \<Rightarrow> bool" where
  "py_in sub [] = (sub = [])"
| "py_in sub (c # cs) = (startswith (c # cs) sub \<or> py_in sub cs)"

text \<open>\<open>any(kw in text for kw in keywords)\<close>.\<close>

definition any_in :: "pystr list \<Rightarrow> pystr \<Rightarrow> bool" where
  "any_in keywords text = list_ex (\<lambda>kw. py_in kw text) keywords"

text \<open>\<open>sep.join(parts)\<close>.\<close>

fun join :: "pystr \<Rightarrow> pystr list \<Rightarrow> pystr" where
  "join sep [] = []"
| "join sep [x] = x"
| "join sep (x # y # ys) = x @ sep @ join sep (y # ys)"

text \<open>\<open>s.split()\<close>: the maximal runs of characters that are not whitespace.\<close>

function split_ws :: "pystr \<Rightarrow> pystr list" where
  "split_ws s =
     (let t = dropWhile is_space s
      in if t = [] then []
         else takeWhile (\<lambda>c. \<not> is_space c) t # split_ws (dropWhile (\<lambda>c. \<not> is_space c) t))"
  by pat_completeness auto
termination
proof (relation "measure length")
  show "wf (measure length)" by simp
next
  fix s t :: pystr
  assume t: "t = dropWhile is_space s" and ne: "t \<noteq> []"
  from ne obtain c cs where tc: "t = c # cs" by (cases t) auto
  with t have "\<not> is_space c" by (metis hd_dropWhile list.sel(1) ne)
  then have "dropWhile (\<lambda>c. \<not> is_space c) t = dropWhile (\<lambda>c. \<not> is_space c) cs"
    by (simp add: tc)
  then have "length (dropWhile (\<lambda>c. \<not> is_space c) t) \<le> length cs"
    by (simp add: length_dropWhile_le)
  moreover have "length t \<le> length s" by (simp add: t length_dropWhile_le)
  ultimately show "(dropWhile (\<lambda>c. \<not> is_space c) t, s) \<in> measure length"
    by (simp add: tc)
qed

declare split_ws.simps [simp del]

text \<open>
  \<open>re.split(r'[.!?]\s+', content)\<close>: the text is cut at every full stop, exclamation
  mark or question mark (46, 33, 63) that is followed by whitespace; the mark and the
  whole run of whitespace after it are dropped. The search is leftmost and the run is
  greedy, and the last piece is kept even when it is empty.
\<close>

function re_split_aux :: "pystr \<Rightarrow> pystr \<Rightarrow> pystr list" where
  "re_split_aux acc [] = [rev acc]"
| "re_split_aux acc (c # cs) =
     (if (c = 46 \<or> c = 33 \<or> c = 63) \<and> cs \<noteq> [] \<and> is_space (hd cs)
      then rev acc # re_split_aux [] (dropWhile is_space cs)
      else re_split_aux (c # acc) cs)"
  by pat_completeness auto
termination
  by (relation "measure (\<lambda>(acc, cs). length cs)")
     (auto simp: le_imp_less_Suc length_dropWhile_le)

definition re_split :: "pystr \<Rightarrow> pystr list" where
  "re_split content = re_split_aux [] content"

text \<open>\<open>answer.endswith(('.', '!', '?'))\<close>.\<close>

definition ends_with_mark :: "pystr \<Rightarrow> bool" where
  "ends_with_mark s \<longleftrightarrow> s \<noteq> [] \<and> (last s = 46 \<or> last s = 33 \<or> last s = 63)"

text \<open>\<open>str(n)\<close> for a natural number, in decimal.\<close>

function str_of_nat :: "nat \<Rightarrow> pystr" where
  "str_of_nat n = (if n < 10 then [48 + n] else str_of_nat (n div 10) @ [48 + n mod 10])"
  by pat_completeness auto
termination
  by (relation "measure id") auto

declare str_of_nat.simps [simp del]

text \<open>
  The slice \<open>xs[:n]\<close> for a Python integer \<open>n\<close>: a negative \<open>n\<close> counts from the end.
  The slice \<open>xs[-7:-1]\<close>: the last seven elements without the last one.
\<close>

definition slice_to :: "'a list \<Rightarrow> int \<Rightarrow> 'a list" where
  "slice_to xs n = (if 0 \<le> n then take (nat n) xs else take (nat (int (length xs) + n)) xs)"

definition slice_m7_m1 :: "'a list \<Rightarrow> 'a list" where
  "slice_m7_m1 xs = drop (length xs - 7) (take (length xs - 1) xs)"

text \<open>
  A \<open>Dict[str, str]\<close> is an association list read with \<open>map_of\<close>. \<open>d.get(k, default)\<close>
  never fails; \<open>d[k]\<close> raises \<open>KeyError\<close> on a missing key.
\<close>

type_synonym dict = "(pystr \<times> pystr) list"

datatype py_exn =
    KeyError pystr
  | FileNotFoundError pystr
  | LibraryError pystr

definition dict_get :: "dict \<Rightarrow> pystr \<Rightarrow> pystr \<Rightarrow> pystr" where
  "dict_get d k dflt = (case map_of d k of None \<Rightarrow> dflt | Some v \<Rightarrow> v)"

definition dict_item :: "dict \<Rightarrow> pystr \<Rightarrow> py_exn + pystr" where
  "dict_item d k = (case map_of d k of None \<Rightarrow> Inl (KeyError k) | Some v \<Rightarrow> Inr v)"

text \<open>\<open>str(e)\<close>: a \<open>KeyError\<close> prints the \<open>repr\<close> of its key, the others their message.
  The keys used by the program are plain ASCII words, whose \<open>repr\<close> is the word in
  apostrophes.\<close>

fun str_exn :: "py_exn \<Rightarrow> pystr" where
  "str_exn (KeyError k) = [39] @ k @ [39]"
| "str_exn (FileNotFoundError m) = m"
| "str_exn (LibraryError m) = m"

section \<open>Data model\<close>

text \<open>
  A query result is the dictionary \<open>{"content": ..., "metadata": ...}\<close> that
  \<open>search_documents\<close> builds from one entry of the vector store's answer. The store
  answers with two parallel lists, \<open>results['documents'][0]\<close> and
  \<open>results['metadatas'][0]\<close>; a \<open>row\<close> is one position of both.
  The collection itself is the list of the entries added to it: identifier, text, metadata.
\<close>

record document =
  content :: pystr
  metadata :: dict

type_synonym row = "pystr \<times> dict"

type_synonym collection = "(pystr \<times> pystr \<times> dict) list"

definition mk_document :: "row \<Rightarrow> document" where
  "mk_document r = \<lparr>content = fst r, metadata = snd r\<rparr>"

text \<open>\<open>genai.Client(api_key=...)\<close>.\<close>

datatype client = Client pystr

text \<open>
  The four prompt templates of \<open>generate_answer_hf\<close>. Each is an f-string whose fixed
  text does not depend on the request; a prompt is the template chosen and the values
  interpolated into it, in the order of the source:
  history, context and question; context and question; history and question; question.
\<close>

datatype prompt =
    Prompt_context_history pystr pystr pystr
  | Prompt_context pystr pystr
  | Prompt_history pystr pystr
  | Prompt_plain pystr

text \<open>
  The calls that leave the program: \<open>collection.query(query_texts=[q], n_results=k)\<close>
  and \<open>models.generate_content(model="gemini-2.5-flash", contents=prompt)\<close>.
  Every function that can make such a call returns the list of the calls it made.
\<close>

datatype event =
    Query pystr int
  | Generate client prompt

text \<open>
  What the program does not define is a parameter of the model:
  \<^item> \<open>str_lower\<close> is \<open>str.lower\<close>;
  \<^item> \<open>chroma_query\<close> is the similarity search of the vector store on a collection, which
    answers with rows or raises;
  \<^item> \<open>generate_content\<close> is the language model: \<open>Inr text\<close> is \<open>response.text\<close>,
    and \<open>Inl e\<close> stands for an exception raised inside the \<open>try\<close> block, \<open>e\<close> being
    \<open>str\<close> of that exception.
\<close>

record env =
  str_lower :: "pystr \<Rightarrow> pystr"
  chroma_query :: "collection \<Rightarrow> pystr \<Rightarrow> int \<Rightarrow> py_exn + row list"
  generate_content :: "client \<Rightarrow> prompt \<Rightarrow> pystr + pystr"

text \<open>The attributes of a \<open>BurkinaHeritageRAGSimple\<close> object.\<close>

record rag =
  corpus_path :: pystr
  chroma_dir :: pystr
  corpus :: "dict list"
  collection :: collection
  gemini_api_key :: pystr
  gemini_client :: "client option"
  hf_token :: pystr
  hf_api_url :: pystr

text \<open>
  A method returns its value, the external calls it made, and the object as the method
  leaves it.
\<close>

type_synonym 'a outcome = "'a \<times> event list \<times> rag"

definition returned :: "'a \<times> event list \<times> 's \<Rightarrow> 'a" where
  "returned r = fst r"

definition calls :: "'a \<times> event list \<times> 's \<Rightarrow> event list" where
  "calls r = fst (snd r)"

definition state_after :: "'a \<times> event list \<times> 's \<Rightarrow> 's" where
  "state_after r = snd (snd r)"

section \<open>search_documents\<close>

definition cultural_keywords :: "pystr list" where
  "cultural_keywords =
     [u ''griot'', u ''balafon'', u ''djemb'' @ [233], u ''kora'',
      u ''musique'', u ''danse'', u ''tradition'', u ''masque'',
      u ''fespaco'', u ''siao'', u ''artisan'', u ''tissage'', u ''poterie'',
      u ''bronze'', u ''c'' @ [233] @ u ''r'' @ [233] @ u ''monie'',
      u ''rite'', u ''anc'' @ [234] @ u ''tre'', u ''chef'', u ''roi'',
      u ''royaume'', u ''ethnie'', u ''mossi'', u ''peul'', u ''bobo'',
      u ''lobi'', u ''gourounsi'', u ''touareg'']"

definition architectural_keywords :: "pystr list" where
  "architectural_keywords =
     [u ''grenier'', u ''case'', u ''maison'', u ''habitat'',
      u ''construction'', u ''architecture'', u ''mosqu'' @ [233] @ u ''e'',
      u ''b'' @ [226] @ u ''timent'', [233] @ u ''difice'', u ''banco'',
      u ''terre'', u ''paille'']"

text \<open>
  The loop over the rows of the answer. \<open>exclude\<close> is
  \<open>prefer_culture and not prefer_architecture\<close>; \<open>documents\<close> is the list built so far.
  A row of category \<open>architecture\<close> is skipped when \<open>exclude\<close> holds; the loop stops
  as soon as \<open>len(documents) >= n_results\<close>.
\<close>

fun select_documents :: "bool \<Rightarrow> int \<Rightarrow> row list \<Rightarrow> document list \<Rightarrow> document list" where
  "select_documents exclude n_results [] documents = documents"
| "select_documents exclude n_results (r # rs) documents =
     (let doc = mk_document r;
          category = dict_get (metadata doc) (u ''category'') []
      in if exclude \<and> category = u ''architecture''
         then select_documents exclude n_results rs documents
         else let documents' = documents @ [doc]
              in if int (length documents') \<ge> n_results then documents'
                 else select_documents exclude n_results rs documents')"

definition search_documents ::
  "env \<Rightarrow> rag \<Rightarrow> pystr \<Rightarrow> int \<Rightarrow> (py_exn + document list) outcome" where
  "search_documents E self query n_results =
     (let query_lower = str_lower E query;
          prefer_culture = any_in cultural_keywords query_lower;
          prefer_architecture = any_in architectural_keywords query_lower;
          n_fetch = (if prefer_culture \<or> prefer_architecture then n_results * 3
                     else n_results);
          k = min n_fetch 15
      in case chroma_query E (collection self) query k of
           Inl e \<Rightarrow> (Inl e, [Query query k], self)
         | Inr rows \<Rightarrow>
             (Inr (slice_to
                     (select_documents (prefer_culture \<and> \<not> prefer_architecture)
                        n_results rows [])
                     n_results),
              [Query query k], self))"

section \<open>_fallback_answer\<close>

definition no_information :: "pystr" where
  "no_information =
     u ''D'' @ [233] @ u ''sol'' @ [233] @ u '', je n'' @ [39]
     @ u ''ai pas trouv'' @ [233] @ u '' d'' @ [39]
     @ u ''information sur ce sujet dans ma base de donn'' @ [233]
     @ u ''es. Posez-moi des questions sur la culture, l'' @ [39]
     @ u ''histoire, les traditions ou l'' @ [39]
     @ u ''architecture du Burkina Faso.''"

definition what_question_words :: "pystr list" where
  "what_question_words =
     [u ''qu'' @ [39] @ u ''est-ce'', u ''c'' @ [39] @ u ''est quoi'',
      u ''what is'', u ''d'' @ [233] @ u ''finition'']"

definition general_culture_words :: "pystr list" where
  "general_culture_words =
     [u ''culture'', u ''traditions'', u ''patrimoine'', u ''burkinab'']"

definition intro_what :: "pystr" where
  "intro_what =
     u ''Voici ce que je peux vous dire : ''"

definition intro_culture :: "pystr" where
  "intro_culture =
     u ''Concernant la culture burkinab'' @ [232] @ u '' : ''"

text \<open>
  The inner loop, over the sentences of one document. The state is
  \<open>(combined_content, total_words)\<close>. A sentence shorter than 25 characters or already
  taken is skipped; the loop stops when the sentence would pass 250 words, and after the
  fourth sentence taken.
\<close>

fun add_sentences :: "pystr list \<Rightarrow> pystr list \<times> nat \<Rightarrow> pystr list \<times> nat" where
  "add_sentences [] st = st"
| "add_sentences (s # ss) (combined_content, total_words) =
     (let sentence = strip s
      in if length sentence < 25 then add_sentences ss (combined_content, total_words)
         else if sentence \<in> set combined_content
         then add_sentences ss (combined_content, total_words)
         else let words = split_ws sentence
              in if total_words + length words > 250 then (combined_content, total_words)
                 else let combined_content' = combined_content @ [sentence];
                          total_words' = total_words + length words
                      in if length combined_content' \<ge> 4
                         then (combined_content', total_words')
                         else add_sentences ss (combined_content', total_words'))"

text \<open>
  The outer loop, over \<open>best_docs\<close>. A document whose stripped content is empty is
  skipped; the loop stops once 250 words or four sentences are reached.
\<close>

fun combine :: "document list \<Rightarrow> pystr list \<times> nat \<Rightarrow> pystr list \<times> nat" where
  "combine [] st = st"
| "combine (doc # docs) (combined_content, total_words) =
     (let content' = strip (content doc)
      in if content' = [] then combine docs (combined_content, total_words)
         else let st' = add_sentences (re_split content') (combined_content, total_words)
              in if snd st' \<ge> 250 \<or> length (fst st') \<ge> 4 then st'
                 else combine docs st')"

definition intro_for :: "env \<Rightarrow> pystr \<Rightarrow> pystr" where
  "intro_for E question =
     (let question_lower = str_lower E question;
          is_what_question = any_in what_question_words question_lower;
          is_general_culture = any_in general_culture_words question_lower
      in if is_what_question then intro_what
         else if is_general_culture then intro_culture
         else [])"

text \<open>The part of the method after the loops, for a non-empty \<open>combined_content\<close>.\<close>

definition finish_answer :: "pystr \<Rightarrow> pystr list \<Rightarrow> pystr" where
  "finish_answer intro combined_content =
     (let answer = strip (intro @ join (u '' '') combined_content);
          answer = (if \<not> ends_with_mark answer then answer @ u ''.'' else answer)
      in if length answer > 600 then take 597 answer @ u ''...'' else answer)"

fun fallback_answer :: "env \<Rightarrow> document list \<Rightarrow> pystr \<Rightarrow> pystr" where
  "fallback_answer E [] question = no_information"
| "fallback_answer E (d # ds) question =
     (let best_docs = take 3 (d # ds);
          intro = intro_for E question;
          combined_content = fst (combine best_docs ([], 0))
      in if combined_content = []
         then (let first_content = content d
               in if length first_content > 400
                  then intro @ strip (take 400 first_content) @ u ''...''
                  else intro @ first_content)
         else finish_answer intro combined_content)"

section \<open>generate_answer_hf\<close>

text \<open>
  The history block of the prompt: when the history has more than one message, the
  messages \<open>conversation_history[-7:-1]\<close>, one line each, the content cut at 150
  characters.
\<close>

definition history_line :: "dict \<Rightarrow> pystr" where
  "history_line msg =
     (let role = (if map_of msg (u ''role'') = Some (u ''user'')
                  then u ''Utilisateur'' else u ''Assistant'');
          content' = take 150 (dict_get msg (u ''content'') [])
      in role @ u '': '' @ content')"

definition history_text :: "dict list \<Rightarrow> pystr" where
  "history_text conversation_history =
     (if conversation_history \<noteq> [] \<and> length conversation_history > 1
      then (let recent_history = slice_m7_m1 conversation_history
            in if recent_history \<noteq> [] then join [10] (map history_line recent_history)
               else [])
      else [])"

text \<open>
  The context block: \<open>"Document {i+1}:\n{doc['content'][:500]}"\<close> for the documents
  \<open>context_docs[:3]\<close>, joined by an empty line.
\<close>

definition context_entry :: "nat \<times> document \<Rightarrow> pystr" where
  "context_entry p =
     u ''Document '' @ str_of_nat (fst p + 1) @ u '':'' @ [10] @ take 500 (content (snd p))"

definition context_entries :: "document list \<Rightarrow> pystr list" where
  "context_entries context_docs = map context_entry (enumerate 0 (take 3 context_docs))"

definition build_context :: "document list \<Rightarrow> pystr" where
  "build_context context_docs = join [10, 10] (context_entries context_docs)"

definition build_prompt :: "pystr \<Rightarrow> document list \<Rightarrow> dict list \<Rightarrow> prompt" where
  "build_prompt question context_docs conversation_history =
     (let has_context = length context_docs > 0;
          history_text = history_text conversation_history
      in if has_context
         then (let context = build_context context_docs
               in if history_text \<noteq> []
                  then Prompt_context_history history_text context question
                  else Prompt_context context question)
         else (if history_text \<noteq> [] then Prompt_history history_text question
               else Prompt_plain question))"

definition msg_overloaded :: "pystr" where
  "msg_overloaded =
     [9888, 65039] @ u '' Le service d'' @ [39]
     @ u ''IA est temporairement surcharg'' @ [233] @ u ''. Veuillez r''
     @ [233] @ u ''essayer dans quelques instants.''"

definition msg_quota :: "pystr" where
  "msg_quota =
     [9888, 65039] @ u '' Limite d'' @ [39]
     @ u ''utilisation atteinte. Veuillez r'' @ [233]
     @ u ''essayer dans quelques minutes.''"

definition msg_api_key :: "pystr" where
  "msg_api_key =
     [9888, 65039] @ u '' Probl'' @ [232] @ u ''me de configuration de l''
     @ [39] @ u ''API. Veuillez contacter l'' @ [39] @ u ''administrateur.''"

definition msg_network :: "pystr" where
  "msg_network =
     [9888, 65039] @ u '' Probl'' @ [232] @ u ''me de connexion r'' @ [233]
     @ u ''seau. Veuillez v'' @ [233]
     @ u ''rifier votre connexion internet et r'' @ [233] @ u ''essayer.''"

definition msg_unavailable :: "pystr" where
  "msg_unavailable =
     [9888, 65039] @ u '' Le service d'' @ [39]
     @ u ''IA est temporairement indisponible. Veuillez r'' @ [233]
     @ u ''essayer ult'' @ [233] @ u ''rieurement.''"

text \<open>The \<open>except\<close> branch: the notice chosen from \<open>str(e)\<close>.\<close>

definition error_notice :: "env \<Rightarrow> pystr \<Rightarrow> pystr" where
  "error_notice E error_str =
     (let low = str_lower E error_str
      in if py_in (u ''503'') error_str \<or> py_in (u ''overloaded'') low
         then msg_overloaded
         else if py_in (u ''429'') error_str \<or> py_in (u ''quota'') low \<or> py_in (u ''rate'') low
         then msg_quota
         else if py_in (u ''401'') error_str \<or> py_in (u ''unauthorized'') low
                 \<or> py_in (u ''api key'') low
         then msg_api_key
         else if py_in (u ''network'') low \<or> py_in (u ''connection'') low
         then msg_network
         else msg_unavailable)"

text \<open>
  The call to Gemini. \<open>Answered a\<close>: the method returns \<open>a\<close> at once.
  \<open>Not_answered m\<close>: the method goes on to the fallback with
  \<open>gemini_error_message = m\<close>, which is \<open>None\<close> when there is no client and when the
  answer was empty or not longer than 30 characters.
\<close>

datatype gemini_result = Answered pystr | Not_answered "pystr option"

definition call_gemini :: "env \<Rightarrow> rag \<Rightarrow> prompt \<Rightarrow> gemini_result \<times> event list" where
  "call_gemini E self prompt =
     (case gemini_client self of
        None \<Rightarrow> (Not_answered None, [])
      | Some c \<Rightarrow>
          (case generate_content E c prompt of
             Inr text \<Rightarrow>
               (let answer = strip text
                in if answer \<noteq> [] \<and> length answer > 30 then (Answered answer, [Generate c prompt])
                   else (Not_answered None, [Generate c prompt]))
           | Inl error_str \<Rightarrow>
               (Not_answered (Some (error_notice E error_str)), [Generate c prompt])))"

definition found_in_database :: "pystr" where
  "found_in_database =
     [10, 10] @ u ''Voici les informations que j'' @ [39] @ u ''ai trouv''
     @ [233] @ u ''es dans ma base de donn'' @ [233] @ u ''es :'' @ [10, 10]"

definition general_terms :: "pystr list" where
  "general_terms =
     [u ''Burkina Faso culture traditions'', u ''histoire Burkina Faso'',
      u ''patrimoine burkinab'' @ [232]]"

definition general_information :: "pystr" where
  "general_information =
     [10, 10] @ u ''Voici des informations g'' @ [233] @ u ''n'' @ [233]
     @ u ''rales sur le Burkina Faso :'' @ [10, 10]"

definition apology :: "pystr" where
  "apology =
     u ''D'' @ [233] @ u ''sol'' @ [233] @ u '', je n'' @ [39]
     @ u ''ai pas d'' @ [39]
     @ u ''information sur ce sujet dans ma base de donn'' @ [233]
     @ u ''es. Posez-moi des questions sur la culture, l'' @ [39]
     @ u ''histoire, les traditions, l'' @ [39] @ u ''artisanat ou l'' @ [39]
     @ u ''architecture du Burkina Faso. Par exemple : '' @ [39] @ u ''Qu''
     @ [39] @ u ''est-ce que le SIAO ?'' @ [39] @ u '', '' @ [39]
     @ u ''Parle-moi du FESPACO'' @ [39] @ u '', '' @ [39]
     @ u ''Qui est Thomas Sankara ?'' @ [39]"

text \<open>
  The widened search: one query of three results for each general term. A query that
  raises is skipped; the rows of the others are appended in order.
\<close>

fun expanded_search :: "env \<Rightarrow> rag \<Rightarrow> pystr list \<Rightarrow> document list" where
  "expanded_search E self [] = []"
| "expanded_search E self (term # terms) =
     (case chroma_query E (collection self) term 3 of
        Inl e \<Rightarrow> expanded_search E self terms
      | Inr rows \<Rightarrow> map mk_document rows @ expanded_search E self terms)"

text \<open>The fallback, after the call to Gemini did not give the answer.\<close>

definition fallback_stage ::
  "env \<Rightarrow> rag \<Rightarrow> pystr \<Rightarrow> document list \<Rightarrow> pystr option \<Rightarrow> pystr \<times> event list" where
  "fallback_stage E self question context_docs gemini_error_message =
     (if length context_docs > 0
      then (let fallback_answer = fallback_answer E context_docs question
            in (case gemini_error_message of
                  Some m \<Rightarrow> (m @ found_in_database @ fallback_answer, [])
                | None \<Rightarrow> (fallback_answer, [])))
      else (let expanded_docs = expanded_search E self general_terms;
                queries = map (\<lambda>term. Query term 3) general_terms
            in if expanded_docs \<noteq> []
               then (let fallback_answer = fallback_answer E (take 5 expanded_docs) question
                     in (case gemini_error_message of
                           Some m \<Rightarrow> (m @ general_information @ fallback_answer, queries)
                         | None \<Rightarrow> (fallback_answer, queries)))
               else (let error_prefix = (case gemini_error_message of
                                           Some m \<Rightarrow> m @ [10, 10] | None \<Rightarrow> [])
                     in (error_prefix @ apology, queries))))"

definition generate_answer_hf ::
  "env \<Rightarrow> rag \<Rightarrow> pystr \<Rightarrow> document list \<Rightarrow> dict list option \<Rightarrow> pystr outcome" where
  "generate_answer_hf E self question context_docs conversation_history =
     (let conversation_history = (case conversation_history of None \<Rightarrow> [] | Some h \<Rightarrow> h);
          prompt = build_prompt question context_docs conversation_history
      in case call_gemini E self prompt of
           (Answered answer, ev) \<Rightarrow> (answer, ev, self)
         | (Not_answered gemini_error_message, ev) \<Rightarrow>
             (case fallback_stage E self question context_docs gemini_error_message of
                (answer, ev') \<Rightarrow> (answer, ev @ ev', self)))"

section \<open>ask\<close>

definition keywords_requiring_search :: "pystr list" where
  "keywords_requiring_search =
     [u ''griot'', u ''balafon'', u ''djemb'' @ [233], u ''kora'',
      u ''musique'', u ''danse'', u ''tradition'', u ''masque'',
      u ''fespaco'', u ''siao'', u ''artisan'', u ''tissage'', u ''poterie'',
      u ''bronze'', u ''c'' @ [233] @ u ''r'' @ [233] @ u ''monie'',
      u ''rite'', u ''anc'' @ [234] @ u ''tre'', u ''chef'', u ''roi'',
      u ''royaume'', u ''ethnie'', u ''mossi'', u ''peul'', u ''bobo'',
      u ''lobi'', u ''gourounsi'', u ''touareg'', u ''grenier'', u ''case'',
      u ''maison'', u ''habitat'', u ''construction'', u ''architecture'',
      u ''mosqu'' @ [233] @ u ''e'', u ''b'' @ [226] @ u ''timent'',
      [233] @ u ''difice'', u ''banco'', u ''terre'', u ''paille'',
      u ''histoire'', u ''ind'' @ [233] @ u ''pendance'',
      u ''thomas sankara'', u ''sankara'', u ''mogho naba'', u ''empire'',
      u ''colonial'', u ''fran'' @ [231] @ u ''ais'', u ''guerre'',
      u ''ouagadougou'', u ''bobo-dioulasso'', u ''banfora'', u ''ville'',
      u ''r'' @ [233] @ u ''gion'', u ''qui est'',
      u ''qu'' @ [39] @ u ''est-ce que'', u ''c'' @ [39] @ u ''est quoi'',
      u ''parle-moi de'', u ''explique'', u ''raconte'',
      u ''d'' @ [233] @ u ''finition'', u ''signification'']"

definition needs_database_search :: "env \<Rightarrow> pystr \<Rightarrow> bool" where
  "needs_database_search E question =
     (let question_lower = strip (str_lower E question)
      in any_in keywords_requiring_search question_lower)"

definition simple_greetings :: "pystr list" where
  "simple_greetings =
     [u ''bonjour'', u ''salut'', u ''bonsoir'', u ''coucou'', u ''hey'',
      u ''hello'', u ''hi'']"

definition greeting_answer :: "pystr" where
  "greeting_answer =
     u ''Bonjour ! '' @ [128075]
     @ u '' Je suis BurkinaHeritage, votre assistant culturel sur le Burkina ''
     @ u ''Faso. Comment puis-je vous aider aujourd'' @ [39] @ u ''hui ? ''
     @ [128522]"

definition sources_header :: "pystr" where
  "sources_header =
     [10, 10, 10, 128218] @ u '' Sources :'' @ [10, 10]"

text \<open>
  The dictionaries \<open>{"title": ..., "source": ..., "category": ...}\<close> and
  \<open>{"question": ..., "answer": ..., "sources": ...}\<close>; each field carries the key's
  name after a prefix.
\<close>

record source_ref =
  src_title :: pystr
  src_source :: pystr
  src_category :: pystr

record ask_result =
  res_question :: pystr
  res_answer :: pystr
  res_sources :: "source_ref list"

text \<open>A list comprehension whose element can raise: the first exception ends it.\<close>

fun traverse :: "('a \<Rightarrow> py_exn + 'b) \<Rightarrow> 'a list \<Rightarrow> py_exn + 'b list" where
  "traverse f [] = Inr []"
| "traverse f (x # xs) =
     (case f x of
        Inl e \<Rightarrow> Inl e
      | Inr y \<Rightarrow> (case traverse f xs of Inl e \<Rightarrow> Inl e | Inr ys \<Rightarrow> Inr (y # ys)))"

definition source_of :: "document \<Rightarrow> py_exn + source_ref" where
  "source_of doc =
     (case dict_item (metadata doc) (u ''title'') of
        Inl e \<Rightarrow> Inl e
      | Inr t \<Rightarrow>
          (case dict_item (metadata doc) (u ''source'') of
             Inl e \<Rightarrow> Inl e
           | Inr s \<Rightarrow>
               (case dict_item (metadata doc) (u ''category'') of
                  Inl e \<Rightarrow> Inl e
                | Inr c \<Rightarrow> Inr \<lparr>src_title = t, src_source = s, src_category = c\<rparr>)))"

definition with_sources :: "pystr \<Rightarrow> source_ref list \<Rightarrow> pystr" where
  "with_sources answer sources =
     (let answer_with_sources = strip answer
      in if sources \<noteq> []
         then (let source_lines = join [10] (map (\<lambda>s. u ''- '' @ src_source s) sources)
               in answer_with_sources @ sources_header @ source_lines)
         else answer_with_sources)"

definition ask ::
  "env \<Rightarrow> rag \<Rightarrow> pystr \<Rightarrow> bool option \<Rightarrow> dict list option \<Rightarrow> (py_exn + ask_result) outcome"
  where
  "ask E self question use_llm conversation_history =
     (let conversation_history = (case conversation_history of None \<Rightarrow> [] | Some h \<Rightarrow> h);
          question_lower = strip (str_lower E question)
      in if question_lower \<in> set simple_greetings
            \<or> list_ex (\<lambda>g. g = question_lower) simple_greetings
         then (Inr \<lparr>res_question = question, res_answer = greeting_answer,
                    res_sources = []\<rparr>, [], self)
         else
           (let needs_db = needs_database_search E question
            in case (if needs_db then search_documents E self question 5
                     else (Inr [], [], self)) of
                 (Inl e, ev, self') \<Rightarrow> (Inl e, ev, self')
               | (Inr docs, ev, self') \<Rightarrow>
                   (case generate_answer_hf E self' question docs (Some conversation_history) of
                      (answer, ev', self'') \<Rightarrow>
                        (case (if needs_db \<and> docs \<noteq> [] then traverse source_of (take 3 docs)
                               else Inr []) of
                           Inl e \<Rightarrow> (Inl e, ev @ ev', self'')
                         | Inr sources \<Rightarrow>
                             (Inr \<lparr>res_question = question,
                                   res_answer = with_sources answer sources,
                                   res_sources = sources\<rparr>,
                              ev @ ev', self'')))))"

section \<open>Initialisation\<close>

text \<open>
  What \<open>__init__\<close> reads from outside the program: the corpus file (its parsed list of
  documents, or the exception of \<open>open\<close> or \<open>json.load\<close>), the collection that the
  persistent store already holds under the name \<open>burkina_culture\<close> if any, and the
  environment. A document of the corpus is a dictionary; a value that is not a string
  (the integer \<open>id\<close>) stands as its \<open>str\<close>.
\<close>

record init_inputs =
  corpus_file :: "py_exn + dict list"
  stored_collection :: "collection option"
  env_GEMINI_API_KEY :: pystr
  GEMINI_AVAILABLE :: bool
  env_HUGGINGFACE_TOKEN :: pystr

text \<open>
  One batch of \<open>_index_documents\<close>: the three comprehensions, in their order, then the
  entries handed to \<open>collection.add\<close>.
\<close>

definition metadata_of :: "dict \<Rightarrow> py_exn + dict" where
  "metadata_of doc =
     (case dict_item doc (u ''title'') of
        Inl e \<Rightarrow> Inl e
      | Inr t \<Rightarrow>
          (case dict_item doc (u ''source'') of
             Inl e \<Rightarrow> Inl e
           | Inr s \<Rightarrow>
               (case dict_item doc (u ''category'') of
                  Inl e \<Rightarrow> Inl e
                | Inr c \<Rightarrow>
                    Inr [(u ''title'', t), (u ''source'', s), (u ''category'', c)])))"

definition id_of :: "dict \<Rightarrow> py_exn + pystr" where
  "id_of doc = (case dict_item doc (u ''id'') of Inl e \<Rightarrow> Inl e | Inr i \<Rightarrow> Inr (u ''doc_'' @ i))"

definition index_batch :: "dict list \<Rightarrow> py_exn + collection" where
  "index_batch batch =
     (case traverse (\<lambda>doc. dict_item doc (u ''content'')) batch of
        Inl e \<Rightarrow> Inl e
      | Inr documents \<Rightarrow>
          (case traverse metadata_of batch of
             Inl e \<Rightarrow> Inl e
           | Inr metadatas \<Rightarrow>
               (case traverse id_of batch of
                  Inl e \<Rightarrow> Inl e
                | Inr ids \<Rightarrow> Inr (zip ids (zip documents metadatas)))))"

text \<open>The loop \<open>for i in range(0, len(self.corpus), batch_size)\<close> with batches of 10.\<close>

function index_documents :: "dict list \<Rightarrow> collection \<Rightarrow> py_exn + collection" where
  "index_documents rest coll =
     (if rest = [] then Inr coll
      else (case index_batch (take 10 rest) of
              Inl e \<Rightarrow> Inl e
            | Inr entries \<Rightarrow> index_documents (drop 10 rest) (coll @ entries)))"
  by pat_completeness auto
termination
  by (relation "measure (\<lambda>(rest, coll). length rest)") auto

declare index_documents.simps [simp del]

text \<open>
  \<open>_setup_collection\<close>: the stored collection when there is one, otherwise a new one
  into which the corpus is indexed.
\<close>

definition setup_collection :: "init_inputs \<Rightarrow> dict list \<Rightarrow> py_exn + collection" where
  "setup_collection W corpus' =
     (case stored_collection W of
        Some coll \<Rightarrow> Inr coll
      | None \<Rightarrow> index_documents corpus' [])"

definition init_rag :: "init_inputs \<Rightarrow> pystr \<Rightarrow> pystr \<Rightarrow> py_exn + rag" where
  "init_rag W corpus_path' chroma_dir' =
     (case corpus_file W of
        Inl e \<Rightarrow> Inl e
      | Inr full_corpus \<Rightarrow>
          (let max_docs = 100;
               corpus' = (if length full_corpus > max_docs then take max_docs full_corpus
                          else full_corpus);
               key = env_GEMINI_API_KEY W;
               client' = (if key \<noteq> [] \<and> GEMINI_AVAILABLE W then Some (Client key) else None)
           in case setup_collection W corpus' of
                Inl e \<Rightarrow> Inl e
              | Inr coll \<Rightarrow>
                  Inr \<lparr>corpus_path = corpus_path', chroma_dir = chroma_dir',
                       corpus = corpus', collection = coll,
                       gemini_api_key = key, gemini_client = client',
                       hf_token = env_HUGGINGFACE_TOKEN W,
                       hf_api_url = u ''https://api-inference.huggingface.co/models/mistralai/Mistral-7B-Instruct-v0.2''\<rparr>))"

section \<open>The HTTP endpoints\<close>

text \<open>
  The state of the server is the global \<open>rag_system\<close>: \<open>None\<close> until the startup
  event has built the system. An endpoint returns its response or the \<open>HTTPException\<close>
  it raises, the external calls made, and the global as the endpoint leaves it. The
  clock readings of the responses (\<open>timestamp\<close>, \<open>processing_time_ms\<close>) are left out.
\<close>

datatype http_exception = HTTPException nat pystr

record chat_request =
  req_question :: pystr
  req_use_llm :: "bool option"
  req_n_results :: "int option"
  req_conversation_history :: "dict list option"

record chat_response =
  resp_question :: pystr
  resp_answer :: pystr
  resp_sources :: "source_ref list"

record health_response =
  health_status :: pystr
  health_message :: pystr
  health_rag_initialized :: bool
  health_total_documents :: nat

record stats_response =
  stats_total_documents :: nat
  stats_categories :: "(pystr \<times> nat) list"
  stats_sources :: "pystr list"

definition startup_event :: "init_inputs \<Rightarrow> py_exn + rag option" where
  "startup_event W =
     (case init_rag W (u ''data/corpus.json'') (u ''data/chroma_db'') of
        Inl e \<Rightarrow> Inl e
      | Inr self \<Rightarrow> Inr (Some self))"

definition health_check :: "rag option \<Rightarrow> health_response" where
  "health_check rag_system =
     \<lparr>health_status = (if rag_system \<noteq> None then u ''healthy'' else u ''error''),
      health_message = (if rag_system \<noteq> None
                        then u ''Syst'' @ [232] @ u ''me RAG op'' @ [233] @ u ''rationnel''
                        else u ''RAG non initialis'' @ [233]),
      health_rag_initialized = (rag_system \<noteq> None),
      health_total_documents = (case rag_system of Some self \<Rightarrow> length (corpus self)
                                | None \<Rightarrow> 0)\<rparr>"

text \<open>\<open>categories[cat] = categories.get(cat, 0) + 1\<close>, keys in the order of insertion.\<close>

definition count_category :: "(pystr \<times> nat) list \<Rightarrow> pystr \<Rightarrow> (pystr \<times> nat) list" where
  "count_category categories cat =
     (case map_of categories cat of
        None \<Rightarrow> categories @ [(cat, 1)]
      | Some n \<Rightarrow> map (\<lambda>(k, v). if k = cat then (k, v + 1) else (k, v)) categories)"

text \<open>\<open>s.split(" - ")[0]\<close>: the text before the first separator.\<close>

fun before_sep :: "pystr \<Rightarrow> pystr \<Rightarrow> pystr" where
  "before_sep sep [] = []"
| "before_sep sep (c # cs) = (if startswith (c # cs) sep then [] else c # before_sep sep cs)"

definition get_stats :: "rag option \<Rightarrow> http_exception + stats_response" where
  "get_stats rag_system =
     (case rag_system of
        None \<Rightarrow> Inl (HTTPException 503
                       (u ''Syst'' @ [232] @ u ''me RAG non initialis'' @ [233]))
      | Some self \<Rightarrow>
          (let categories =
                 foldl (\<lambda>cats doc. count_category cats (dict_get doc (u ''category'') (u ''unknown'')))
                   [] (corpus self);
               sources_set =
                 filter (\<lambda>s. s \<noteq> [])
                   (map (\<lambda>doc. before_sep (u '' - '') (dict_get doc (u ''source'') [])) (corpus self))
           in Inr \<lparr>stats_total_documents = length (corpus self),
                   stats_categories = categories,
                   stats_sources = sort (remdups sources_set)\<rparr>))"

definition chat ::
  "env \<Rightarrow> rag option \<Rightarrow> chat_request
     \<Rightarrow> (http_exception + chat_response) \<times> event list \<times> rag option" where
  "chat E rag_system request =
     (case rag_system of
        None \<Rightarrow> (Inl (HTTPException 503
                        (u ''Syst'' @ [232] @ u ''me RAG non initialis'' @ [233])),
                 [], rag_system)
      | Some self \<Rightarrow>
          (if req_question request = [] \<or> length (strip (req_question request)) < 3
           then (Inl (HTTPException 400 (u ''Question trop courte'')), [], rag_system)
           else (case ask E self (req_question request) (req_use_llm request)
                        (req_conversation_history request) of
                   (Inl e, ev, self') \<Rightarrow>
                     (Inl (HTTPException 500 (u ''Erreur: '' @ str_exn e)), ev, Some self')
                 | (Inr result, ev, self') \<Rightarrow>
                     (Inr \<lparr>resp_question = res_question result,
                           resp_answer = res_answer result,
                           resp_sources = res_sources result\<rparr>,
                      ev, Some self'))))"

definition clear_conversation :: "rag option \<Rightarrow> dict \<times> event list \<times> rag option" where
  "clear_conversation rag_system =
     ([(u ''status'', u ''success''),
       (u ''message'', u ''Historique effac'' @ [233])],
      [], rag_system)"

text \<open>
  The states the server can be in: the module sets \<open>rag_system = None\<close>, the startup
  event replaces it by the initialised system, and every request leaves what the
  endpoint leaves.
\<close>

inductive reachable :: "init_inputs \<Rightarrow> env \<Rightarrow> rag option \<Rightarrow> bool" for W :: init_inputs and E :: env where
  module_loaded: "reachable W E None"
| started: "startup_event W = Inr st \<Longrightarrow> reachable W E st"
| after_chat: "reachable W E st \<Longrightarrow> reachable W E (state_after (chat E st request))"
| after_clear: "reachable W E st \<Longrightarrow> reachable W E (state_after (clear_conversation st))"

section \<open>Sample inputs\<close>

text \<open>
  Concrete inputs on which the theorems below are exercised: \<open>str.lower\<close> restricted to
  ASCII, a store that answers every query with the same rows, and a language model with
  a fixed behaviour.
\<close>

definition ascii_lower :: "pystr \<Rightarrow> pystr" where
  "ascii_lower s = map (\<lambda>c. if 65 \<le> c \<and> c \<le> 90 then c + 32 else c) s"

definition row_arch :: row where
  "row_arch =
     (u ''Une case ronde en banco.'',
      [(u ''title'', u ''Cases''), (u ''source'', u ''a.pdf - page 1''),
       (u ''category'', u ''architecture'')])"

definition row_cult :: row where
  "row_cult =
     (u ''Le griot chante.'',
      [(u ''title'', u ''Griots''), (u ''source'', u ''b.pdf - page 2''),
       (u ''category'', u ''culture'')])"

definition sample_env :: "row list \<Rightarrow> (pystr + pystr) \<Rightarrow> env" where
  "sample_env rows reply =
     \<lparr>str_lower = ascii_lower,
      chroma_query = (\<lambda>coll q k. Inr rows),
      generate_content = (\<lambda>c p. reply)\<rparr>"

definition sample_rag :: "client option \<Rightarrow> rag" where
  "sample_rag cl =
     \<lparr>corpus_path = u ''data/corpus.json'', chroma_dir = u ''data/chroma_db'',
      corpus = [], collection = [],
      gemini_api_key = [], gemini_client = cl,
      hf_token = [], hf_api_url = []\<rparr>"

definition short_request :: chat_request where
  "short_request =
     \<lparr>req_question = u ''hi'', req_use_llm = Some False, req_n_results = Some 5,
      req_conversation_history = Some []\<rparr>"

text \<open>
  A start of the server on a corpus file of 101 documents, with a collection already in
  the persistent store, and the system that \<open>__init__\<close> then builds.
\<close>

definition sample_inputs :: init_inputs where
  "sample_inputs =
     \<lparr>corpus_file = Inr (replicate 101 [(u ''category'', u ''culture'')]),
      stored_collection = Some [],
      env_GEMINI_API_KEY = [], GEMINI_AVAILABLE = False, env_HUGGINGFACE_TOKEN = []\<rparr>"

definition started_rag :: rag where
  "started_rag =
     \<lparr>corpus_path = u ''data/corpus.json'', chroma_dir = u ''data/chroma_db'',
      corpus = replicate 100 [(u ''category'', u ''culture'')], collection = [],
      gemini_api_key = [], gemini_client = None,
      hf_token = [],
      hf_api_url = u ''https://api-inference.huggingface.co/models/mistralai/Mistral-7B-Instruct-v0.2''\<rparr>"




definition sample_history :: "dict list" where
  "sample_history =
     [ [(u ''role'', u ''user''), (u ''content'', u ''Bonjour'')],
      [(u ''role'', u ''assistant''), (u ''content'', u ''Bonjour !'')]]"

section \<open>Notions used in the statements\<close>

text \<open>A document cut to its first 500 characters.\<close>

definition first_500 :: "document \<Rightarrow> document" where
  "first_500 d = d\<lparr>content := take 500 (content d)\<rparr>"



section \<open>Lemmas on strip\<close>

lemma lstrip_empty_iff: "lstrip s = [] \<longleftrightarrow> (\<forall>c \<in> set s. is_space c)"
  by (simp add: lstrip_def dropWhile_eq_Nil_conv)

lemma rstrip_empty_iff: "rstrip s = [] \<longleftrightarrow> (\<forall>c \<in> set s. is_space c)"
  by (simp add: rstrip_def dropWhile_eq_Nil_conv)

lemma set_lstrip: "set (lstrip s) \<subseteq> set s"
  by (simp add: lstrip_def set_dropWhileD subsetI)

lemma lstrip_keeps_nonspace:
  assumes "c \<in> set s" and "\<not> is_space c"
  shows "c \<in> set (lstrip s)"
  using assms by (induction s) (auto simp: lstrip_def)

lemma strip_empty_iff: "strip s = [] \<longleftrightarrow> (\<forall>c \<in> set s. is_space c)"
proof
  assume "strip s = []"
  then have a: "\<forall>c \<in> set (lstrip s). is_space c"
    by (simp add: strip_def rstrip_empty_iff)
  show "\<forall>c \<in> set s. is_space c"
  proof
    fix c assume "c \<in> set s"
    show "is_space c"
    proof (rule ccontr)
      assume "\<not> is_space c"
      with \<open>c \<in> set s\<close> have "c \<in> set (lstrip s)" by (rule lstrip_keeps_nonspace)
      with a \<open>\<not> is_space c\<close> show False by blast
    qed
  qed
next
  assume "\<forall>c \<in> set s. is_space c"
  then have "lstrip s = []" by (simp add: lstrip_empty_iff)
  then show "strip s = []" by (simp add: strip_def rstrip_def)
qed

lemma hd_lstrip: "lstrip s \<noteq> [] \<Longrightarrow> \<not> is_space (hd (lstrip s))"
  unfolding lstrip_def by (rule hd_dropWhile)

lemma rstrip_Cons_nonspace:
  assumes "\<not> is_space c"
  shows "rstrip (c # cs) = c # rstrip cs"
proof -
  have "dropWhile is_space (rev cs @ [c]) = dropWhile is_space (rev cs) @ [c]"
    using assms by (simp add: dropWhile_append)
  then show ?thesis by (simp add: rstrip_def)
qed

lemma hd_strip:
  assumes "strip s \<noteq> []"
  shows "\<not> is_space (hd (strip s))"
proof -
  from assms have ne: "lstrip s \<noteq> []" by (auto simp: strip_def rstrip_def)
  then obtain c cs where l: "lstrip s = c # cs" by (cases "lstrip s") auto
  with hd_lstrip[OF ne] have c: "\<not> is_space c" by simp
  then have "strip s = c # rstrip cs" by (simp add: strip_def l rstrip_Cons_nonspace)
  with c show ?thesis by simp
qed

lemma strip_nonblank:
  assumes "strip s \<noteq> []"
  shows "\<exists>c \<in> set (strip s). \<not> is_space c"
proof -
  from assms have "hd (strip s) \<in> set (strip s)" by simp
  with hd_strip[OF assms] show ?thesis by blast
qed

lemma strip_strip_nonempty:
  assumes "strip s \<noteq> []"
  shows "strip (strip s) \<noteq> []"
  using strip_nonblank[OF assms] by (simp add: strip_empty_iff)

lemma strip_append_nonblank:
  assumes "\<exists>c \<in> set t. \<not> is_space c"
  shows "strip (s @ t) \<noteq> []" and "strip (t @ s) \<noteq> []"
  using assms by (auto simp: strip_empty_iff)

section \<open>Lemmas on search_documents\<close>

lemma select_documents_no_architecture:
  assumes "\<forall>d \<in> set documents. dict_get (metadata d) (u ''category'') [] \<noteq> u ''architecture''"
  shows "\<forall>d \<in> set (select_documents True n rows documents).
           dict_get (metadata d) (u ''category'') [] \<noteq> u ''architecture''"
  using assms
proof (induction rows arbitrary: documents)
  case Nil
  then show ?case by simp
next
  case (Cons r rs)
  show ?case
  proof (cases "dict_get (metadata (mk_document r)) (u ''category'') [] = u ''architecture''")
    case True
    then show ?thesis using Cons by (simp add: Let_def)
  next
    case False
    have ok: "\<forall>d \<in> set (documents @ [mk_document r]).
                dict_get (metadata d) (u ''category'') [] \<noteq> u ''architecture''"
      using Cons.prems False by auto
    show ?thesis
    proof (cases "int (length (documents @ [mk_document r])) \<ge> n")
      case True
      then show ?thesis using False ok by (simp add: Let_def)
    next
      case nf: False
      then show ?thesis using False Cons.IH[OF ok] by (simp add: Let_def)
    qed
  qed
qed

lemma set_slice_to: "set (slice_to xs n) \<subseteq> set xs"
  by (auto simp: slice_to_def dest: in_set_takeD)

lemma select_documents_short:
  "n \<le> 1 \<Longrightarrow> length (select_documents ex n rows []) \<le> 1"
proof (induction rows)
  case Nil
  then show ?case by simp
next
  case (Cons r rs)
  then show ?case by (cases "ex \<and> dict_get (metadata (mk_document r)) (u ''category'') [] = u ''architecture''") (auto simp: Let_def)
qed

lemma length_slice_to_select:
  "length (slice_to (select_documents ex n rows []) n) \<le> nat n"
proof (cases "0 \<le> n")
  case True
  then show ?thesis by (simp add: slice_to_def)
next
  case False
  then have "length (select_documents ex n rows []) \<le> 1"
    by (intro select_documents_short) simp
  with False show ?thesis by (simp add: slice_to_def)
qed

lemma search_documents_returned:
  assumes "returned (search_documents E self query n_results) = Inr docs"
  shows "\<exists>rows. docs = slice_to (select_documents
            (any_in cultural_keywords (str_lower E query)
               \<and> \<not> any_in architectural_keywords (str_lower E query))
            n_results rows []) n_results"
proof -
  define k where "k = min (if any_in cultural_keywords (str_lower E query)
        \<or> any_in architectural_keywords (str_lower E query) then n_results * 3 else n_results) 15"
  show ?thesis
  proof (cases "chroma_query E (collection self) query k")
    case (Inl e)
    with assms show ?thesis
      by (simp add: search_documents_def returned_def Let_def k_def)
  next
    case (Inr rows)
    with assms show ?thesis
      by (simp add: search_documents_def returned_def Let_def k_def) blast
  qed
qed


section \<open>Lemmas on the prompt\<close>

lemma map_context_entry_first_500:
  "map context_entry (enumerate n (map first_500 ds)) = map context_entry (enumerate n ds)"
  by (induction ds arbitrary: n) (simp_all add: context_entry_def first_500_def)

lemma context_entries_first_500:
  "context_entries (map first_500 (take 3 ds)) = context_entries ds"
proof -
  have "take 3 (map first_500 (take 3 ds)) = map first_500 (take 3 ds)"
    by (simp add: take_map)
  then show ?thesis
    by (simp add: context_entries_def map_context_entry_first_500)
qed

lemma build_context_first_500:
  "build_context (map first_500 (take 3 ds)) = build_context ds"
  by (simp only: build_context_def context_entries_first_500)

lemma build_prompt_first_500:
  "build_prompt question (map first_500 (take 3 ds)) h = build_prompt question ds h"
proof -
  have "(0 < length (map first_500 (take 3 ds))) = (0 < length ds)"
    by (cases ds) simp_all
  then show ?thesis
    unfolding build_prompt_def build_context_first_500 by (simp only:)
qed

lemma length_context_entries: "length (context_entries ds) \<le> 3"
  by (simp add: context_entries_def)

lemma length_context_entry:
  assumes "fst p < 9"
  shows "length (context_entry p) \<le> 512"
proof -
  have "str_of_nat (fst p + 1) = [48 + (fst p + 1)]"
    using assms by (subst str_of_nat.simps) simp
  then show ?thesis
    by (simp add: context_entry_def u_def)
qed

lemma context_entries_bounded: "list_all (\<lambda>e. length e \<le> 512) (context_entries ds)"
proof -
  have "length (context_entry p) \<le> 512" if "p \<in> set (enumerate 0 (take 3 ds))" for p
  proof -
    from that have "fst p < length (take 3 ds)"
      by (simp add: in_set_enumerate_eq)
    then have "fst p < 9" by simp
    then show ?thesis by (rule length_context_entry)
  qed
  then show ?thesis
    by (simp add: context_entries_def list_all_iff)
qed

lemma calls_call_gemini:
  assumes "Generate c p \<in> set (snd (call_gemini E self prompt))"
  shows "p = prompt"
proof (cases "gemini_client self")
  case None
  with assms show ?thesis by (simp add: call_gemini_def)
next
  case (Some c')
  show ?thesis
  proof (cases "generate_content E c' prompt")
    case (Inl e)
    with assms Some show ?thesis by (simp add: call_gemini_def)
  next
    case (Inr reply)
    with assms Some show ?thesis
      by (simp add: call_gemini_def Let_def split: if_splits)
  qed
qed

lemma calls_fallback_stage:
  "Generate c p \<notin> set (snd (fallback_stage E self question docs m))"
  by (cases m) (auto simp: fallback_stage_def Let_def)

lemma calls_generate_answer_hf:
  assumes "Generate c p \<in> set (calls (generate_answer_hf E self question docs history))"
  shows "p = build_prompt question docs (case history of None \<Rightarrow> [] | Some h \<Rightarrow> h)"
proof -
  let ?prompt = "build_prompt question docs (case history of None \<Rightarrow> [] | Some h \<Rightarrow> h)"
  obtain g ev where cg: "call_gemini E self ?prompt = (g, ev)" by (cases "call_gemini E self ?prompt")
  show ?thesis
  proof (cases g)
    case (Answered a)
    with assms cg have "Generate c p \<in> set ev"
      by (simp add: generate_answer_hf_def calls_def)
    with cg calls_call_gemini[of c p E self ?prompt] show ?thesis by simp
  next
    case (Not_answered m)
    obtain a ev' where fs: "fallback_stage E self question docs m = (a, ev')"
      by (cases "fallback_stage E self question docs m")
    with assms cg Not_answered have "Generate c p \<in> set ev \<or> Generate c p \<in> set ev'"
      by (simp add: generate_answer_hf_def calls_def)
    moreover have "Generate c p \<notin> set ev'"
      using calls_fallback_stage[of c p E self question docs m] fs by simp
    ultimately have "Generate c p \<in> set ev" by simp
    with cg calls_call_gemini[of c p E self ?prompt] show ?thesis by simp
  qed
qed

section \<open>The object after a call\<close>

lemma state_after_search_documents:
  "state_after (search_documents E self query n_results) = self"
proof -
  define k where "k = min (if any_in cultural_keywords (str_lower E query)
        \<or> any_in architectural_keywords (str_lower E query) then n_results * 3 else n_results) 15"
  show ?thesis
    by (cases "chroma_query E (collection self) query k")
       (simp_all add: search_documents_def state_after_def Let_def k_def)
qed

lemma state_after_generate_answer_hf:
  "state_after (generate_answer_hf E self question docs history) = self"
proof -
  let ?prompt = "build_prompt question docs (case history of None \<Rightarrow> [] | Some h \<Rightarrow> h)"
  obtain g ev where cg: "call_gemini E self ?prompt = (g, ev)"
    by (cases "call_gemini E self ?prompt")
  show ?thesis
  proof (cases g)
    case (Answered a)
    with cg show ?thesis by (simp add: generate_answer_hf_def state_after_def)
  next
    case (Not_answered m)
    obtain a ev' where "fallback_stage E self question docs m = (a, ev')"
      by (cases "fallback_stage E self question docs m")
    with cg Not_answered show ?thesis by (simp add: generate_answer_hf_def state_after_def)
  qed
qed

lemma ask_greeting_eq:
  assumes "strip (str_lower E question) \<in> set simple_greetings"
  shows "ask E self question use_llm history
         = (Inr \<lparr>res_question = question, res_answer = greeting_answer, res_sources = []\<rparr>,
            [], self)"
  using assms by (simp add: ask_def Let_def)

lemma state_after_ask: "state_after (ask E self question use_llm history) = self"
proof (cases "strip (str_lower E question) \<in> set simple_greetings")
  case True
  then show ?thesis by (simp add: ask_greeting_eq state_after_def)
next
  case False
  then have ng: "\<not> list_ex (\<lambda>g. g = strip (str_lower E question)) simple_greetings"
    by (simp add: list_ex_iff)
  let ?h = "case history of None \<Rightarrow> [] | Some h \<Rightarrow> h"
  let ?s = "if needs_database_search E question then search_documents E self question 5
            else (Inr [], [], self)"
  obtain r ev s1 where s: "?s = (r, ev, s1)" by (cases ?s)
  have s1: "s1 = self"
  proof (cases "needs_database_search E question")
    case True
    with s have "s1 = state_after (search_documents E self question 5)"
      by (simp add: state_after_def)
    then show ?thesis by (simp only: state_after_search_documents)
  next
    case False
    with s show ?thesis by simp
  qed
  show ?thesis
  proof (cases r)
    case (Inl e)
    with s s1 False ng show ?thesis by (simp add: ask_def Let_def state_after_def)
  next
    case (Inr docs)
    obtain a ev' s2 where g: "generate_answer_hf E self question docs (Some ?h) = (a, ev', s2)"
      by (cases "generate_answer_hf E self question docs (Some ?h)")
    then have "s2 = state_after (generate_answer_hf E self question docs (Some ?h))"
      by (simp add: state_after_def)
    then have s2: "s2 = self" by (simp only: state_after_generate_answer_hf)
    let ?t = "if needs_database_search E question \<and> docs \<noteq> []
              then traverse source_of (take 3 docs) else Inr []"
    show ?thesis
      using s s1 s2 g Inr False ng
      by (cases ?t) (simp_all add: ask_def Let_def state_after_def)
  qed
qed

lemma state_after_chat: "state_after (chat E rag_system request) = rag_system"
proof (cases rag_system)
  case None
  then show ?thesis by (simp add: chat_def state_after_def)
next
  case (Some self)
  let ?a = "ask E self (req_question request) (req_use_llm request)
              (req_conversation_history request)"
  obtain r ev s' where a: "?a = (r, ev, s')" by (cases ?a)
  then have "s' = state_after ?a" by (simp add: state_after_def)
  then have "s' = self" by (simp only: state_after_ask)
  with a Some show ?thesis
    by (cases r) (simp_all add: chat_def state_after_def)
qed

section \<open>Lemmas on the initialisation\<close>

lemma init_rag_corpus:
  assumes "init_rag W p d = Inr self" and "corpus_file W = Inr full_corpus"
  shows "corpus self = take 100 full_corpus"
proof -
  let ?c = "if length full_corpus > 100 then take 100 full_corpus else full_corpus"
  have c: "?c = take 100 full_corpus" by simp
  show ?thesis
  proof (cases "setup_collection W ?c")
    case (Inl e)
    with assms show ?thesis by (simp add: init_rag_def Let_def)
  next
    case (Inr coll)
    with assms have "corpus self = ?c" by (auto simp add: init_rag_def Let_def)
    with c show ?thesis by simp
  qed
qed

lemma startup_event_corpus:
  assumes "startup_event W = Inr (Some self)" and "corpus_file W = Inr full_corpus"
  shows "corpus self = take 100 full_corpus"
proof (cases "init_rag W (u ''data/corpus.json'') (u ''data/chroma_db'')")
  case (Inl e)
  with assms(1) show ?thesis by (simp add: startup_event_def)
next
  case (Inr s)
  with assms(1) have "s = self" by (simp add: startup_event_def)
  with Inr assms(2) show ?thesis by (simp add: init_rag_corpus)
qed

lemma state_after_clear_conversation:
  "state_after (clear_conversation rag_system) = rag_system"
  by (simp add: clear_conversation_def state_after_def)

lemma reachable_corpus:
  assumes "reachable W E rag_system" and "corpus_file W = Inr full_corpus"
    and "rag_system = Some self"
  shows "corpus self = take 100 full_corpus"
  using assms
proof (induction arbitrary: self rule: reachable.induct)
  case module_loaded
  then show ?case by simp
next
  case (started st)
  then show ?case by (simp add: startup_event_corpus)
next
  case (after_chat st request)
  then show ?case by (simp only: state_after_chat)
next
  case (after_clear st)
  then show ?case by (simp only: state_after_clear_conversation)
qed

section \<open>Lemmas on generate_answer_hf\<close>





section \<open>Lemmas on the loops of _fallback_answer\<close>








lemma full_stop_not_space: "\<not> is_space 46"
  by (simp add: is_space_def)






section \<open>Lemmas on complete rows\<close>






lemma warning_sign_not_space: "\<not> is_space 9888"
  by (simp add: is_space_def)

lemma error_notice_nonblank: "\<exists>c \<in> set (error_notice E error_str). \<not> is_space c"
proof -
  have "9888 \<in> set (error_notice E error_str)"
    by (simp add: error_notice_def Let_def msg_overloaded_def msg_quota_def msg_api_key_def
          msg_network_def msg_unavailable_def)
  with warning_sign_not_space show ?thesis by blast
qed










section \<open>Evaluation on the sample inputs\<close>

lemma griot_lower: "ascii_lower (u ''griot'') = u ''griot''"
  by (simp add: ascii_lower_def u_def)

lemma griot_cultural: "any_in cultural_keywords (u ''griot'')"
  by (simp add: any_in_def cultural_keywords_def u_def)

lemma griot_not_architectural: "\<not> any_in architectural_keywords (u ''griot'')"
  by (simp add: any_in_def architectural_keywords_def u_def)

lemma category_row_arch:
  "dict_get (metadata (mk_document row_arch)) (u ''category'') [] = u ''architecture''"
  by (simp add: dict_get_def mk_document_def row_arch_def u_def)

lemma category_row_cult:
  "dict_get (metadata (mk_document row_cult)) (u ''category'') [] = u ''culture''"
  by (simp add: dict_get_def mk_document_def row_cult_def u_def)

lemma culture_not_architecture: "u ''culture'' \<noteq> u ''architecture''"
  by (simp add: u_def)

lemma search_griot:
  "returned (search_documents (sample_env [row_arch, row_cult] r) (sample_rag cl) (u ''griot'') 5)
     = Inr [mk_document row_cult]"
  by (simp add: search_documents_def sample_env_def returned_def griot_lower griot_cultural
        griot_not_architectural Let_def category_row_arch category_row_cult
        culture_not_architecture slice_to_def)


lemma calls_generate_sample:
  "calls (generate_answer_hf (sample_env rows (Inl e)) (sample_rag (Some cl)) q
            [mk_document row_cult] None)
     = [Generate cl (build_prompt q [mk_document row_cult] [])]"
  by (simp add: generate_answer_hf_def call_gemini_def fallback_stage_def sample_env_def
        sample_rag_def calls_def Let_def)

lemma bonjour_greeting: "strip (ascii_lower (u '' Bonjour '')) = u ''bonjour''"
  by (simp add: ascii_lower_def u_def strip_def lstrip_def rstrip_def is_space_def)

lemma bonjour_in_greetings: "u ''bonjour'' \<in> set simple_greetings"
  by (simp add: simple_greetings_def)

lemma strip_hi: "strip (u ''hi'') = u ''hi''"
  by (simp add: u_def strip_def lstrip_def rstrip_def is_space_def)

lemma length_hi: "length (u ''hi'') = 2"
  by (simp add: u_def)

lemma startup_sample: "startup_event sample_inputs = Inr (Some started_rag)"
  by (simp add: startup_event_def init_rag_def sample_inputs_def setup_collection_def
        started_rag_def Let_def)















section \<open>The claims\<close>




text \<open>
  C2. For every query whose lowercased text contains a cultural keyword and no
  architectural keyword, no document returned by \<open>search_documents\<close> has the category
  \<open>architecture\<close>. The category of a document is read as the code reads it, with
  \<open>metadata.get('category', '')\<close>.
\<close>

theorem search_documents_excludes_architecture:
  assumes "any_in cultural_keywords (str_lower E query)"
    and "\<not> any_in architectural_keywords (str_lower E query)"
    and "returned (search_documents E self query n_results) = Inr docs"
    and "d \<in> set docs"
  shows "dict_get (metadata d) (u ''category'') [] \<noteq> u ''architecture''"
proof -
  from search_documents_returned[OF assms(3)] obtain rows where
    "docs = slice_to (select_documents
            (any_in cultural_keywords (str_lower E query)
               \<and> \<not> any_in architectural_keywords (str_lower E query))
            n_results rows []) n_results" ..
  with assms(1,2) have docs: "docs = slice_to (select_documents True n_results rows []) n_results"
    by simp
  have "\<forall>d \<in> set ([] :: document list).
          dict_get (metadata d) (u ''category'') [] \<noteq> u ''architecture''"
    by simp
  then have all: "\<forall>d \<in> set (select_documents True n_results rows []).
          dict_get (metadata d) (u ''category'') [] \<noteq> u ''architecture''"
    by (rule select_documents_no_architecture)
  have "set docs \<subseteq> set (select_documents True n_results rows [])"
    unfolding docs by (rule set_slice_to)
  with assms(4) have "d \<in> set (select_documents True n_results rows [])" ..
  with all show ?thesis ..
qed

theorem search_documents_excludes_architecture_witness:
  "any_in cultural_keywords (str_lower (sample_env [row_arch, row_cult] (Inl [])) (u ''griot''))
   \<and> \<not> any_in architectural_keywords
         (str_lower (sample_env [row_arch, row_cult] (Inl [])) (u ''griot''))
   \<and> returned (search_documents (sample_env [row_arch, row_cult] (Inl [])) (sample_rag None)
         (u ''griot'') 5) = Inr [mk_document row_cult]
   \<and> mk_document row_cult \<in> set [mk_document row_cult]
   \<and> dict_get (metadata (mk_document row_cult)) (u ''category'') [] \<noteq> u ''architecture''"
proof -
  let ?E = "sample_env [row_arch, row_cult] (Inl [])"
  have h1: "any_in cultural_keywords (str_lower ?E (u ''griot''))"
    by (simp add: sample_env_def griot_lower griot_cultural)
  have h2: "\<not> any_in architectural_keywords (str_lower ?E (u ''griot''))"
    by (simp add: sample_env_def griot_lower griot_not_architectural)
  have h3: "returned (search_documents ?E (sample_rag None) (u ''griot'') 5)
              = Inr [mk_document row_cult]"
    by (rule search_griot)
  have h4: "mk_document row_cult \<in> set [mk_document row_cult]" by simp
  have c: "dict_get (metadata (mk_document row_cult)) (u ''category'') [] \<noteq> u ''architecture''"
    by (rule search_documents_excludes_architecture[OF h1 h2 h3 h4])
  from h1 h2 h3 h4 c show ?thesis by (intro conjI)
qed

text \<open>
  C3. Whatever \<open>search_documents\<close> returns has at most \<open>n_results\<close> documents (none
  when \<open>n_results\<close> is not positive), and every prompt that \<open>generate_answer_hf\<close> sends
  to the language model is the prompt built from the first three context documents cut
  to 500 characters each: its context block has at most three entries, each of at most
  500 characters after the 12 characters of its heading.
\<close>

theorem search_and_prompt_bounded:
  assumes "returned (search_documents E self query n_results) = Inr docs"
    and "Generate c p \<in> set (calls (generate_answer_hf E self' question context_docs history))"
  shows "length docs \<le> nat n_results
       \<and> p = build_prompt question (map first_500 (take 3 context_docs))
               (case history of None \<Rightarrow> [] | Some h \<Rightarrow> h)
       \<and> length (context_entries context_docs) \<le> 3
       \<and> list_all (\<lambda>e. length e \<le> 512) (context_entries context_docs)"
proof -
  from search_documents_returned[OF assms(1)] obtain ex rows where
    "docs = slice_to (select_documents ex n_results rows []) n_results" by blast
  then have "length docs \<le> nat n_results"
    by (simp only: length_slice_to_select)
  moreover have "p = build_prompt question (map first_500 (take 3 context_docs))
               (case history of None \<Rightarrow> [] | Some h \<Rightarrow> h)"
    using calls_generate_answer_hf[OF assms(2)] by (simp only: build_prompt_first_500)
  ultimately show ?thesis
    using length_context_entries[of context_docs] context_entries_bounded[of context_docs]
    by (intro conjI)
qed

theorem search_and_prompt_bounded_witness:
  "returned (search_documents (sample_env [row_arch, row_cult] (Inl [])) (sample_rag None)
       (u ''griot'') 5) = Inr [mk_document row_cult]
   \<and> Generate (Client (u ''k''))
         (build_prompt (u ''griot'') [mk_document row_cult] [])
       \<in> set (calls (generate_answer_hf (sample_env [row_arch, row_cult] (Inl []))
                  (sample_rag (Some (Client (u ''k'')))) (u ''griot'')
                  [mk_document row_cult] None))
   \<and> length [mk_document row_cult] \<le> nat 5
   \<and> build_prompt (u ''griot'') [mk_document row_cult] []
       = build_prompt (u ''griot'') (map first_500 (take 3 [mk_document row_cult])) []
   \<and> length (context_entries [mk_document row_cult]) \<le> 3
   \<and> list_all (\<lambda>e. length e \<le> 512) (context_entries [mk_document row_cult])"
proof -
  let ?E = "sample_env [row_arch, row_cult] (Inl [])"
  let ?p = "build_prompt (u ''griot'') [mk_document row_cult] []"
  have h1: "returned (search_documents ?E (sample_rag None) (u ''griot'') 5)
              = Inr [mk_document row_cult]"
    by (rule search_griot)
  have h2: "Generate (Client (u ''k'')) ?p
       \<in> set (calls (generate_answer_hf ?E (sample_rag (Some (Client (u ''k'')))) (u ''griot'')
                  [mk_document row_cult] None))"
    by (simp only: calls_generate_sample list.set insertI1)
  from search_and_prompt_bounded[OF h1 h2] h1 h2 show ?thesis
    by (simp only: option.case simp_thms)
qed



text \<open>
  C5. The conversation history is not kept: whatever history the caller supplies,
  \<open>ask\<close> and the chat endpoint leave the system as it was, and the history-clear
  endpoint always answers with the status \<open>success\<close> and leaves the system unchanged.
\<close>

theorem history_never_persisted:
  "state_after (ask E self question use_llm history) = self
   \<and> state_after (chat E rag_system request) = rag_system
   \<and> clear_conversation rag_system
       = ([(u ''status'', u ''success''), (u ''message'', u ''Historique effac'' @ [233])],
          [], rag_system)"
proof (intro conjI)
  show "state_after (ask E self question use_llm history) = self"
    by (rule state_after_ask)
next
  show "state_after (chat E rag_system request) = rag_system"
    by (rule state_after_chat)
next
  show "clear_conversation rag_system
       = ([(u ''status'', u ''success''), (u ''message'', u ''Historique effac'' @ [233])],
          [], rag_system)"
    by (simp add: clear_conversation_def)
qed

theorem history_never_persisted_witness:
  "state_after (ask (sample_env [row_arch, row_cult] (Inl [])) (sample_rag None) (u ''griot'')
       None (Some sample_history))
     = sample_rag None
   \<and> state_after (chat (sample_env [row_arch, row_cult] (Inl [])) (Some (sample_rag None))
         short_request) = Some (sample_rag None)
   \<and> clear_conversation (Some (sample_rag None))
       = ([(u ''status'', u ''success''), (u ''message'', u ''Historique effac'' @ [233])],
          [], Some (sample_rag None))"
  by (rule history_never_persisted)

text \<open>
  C6. The query path only reads: after \<open>ask\<close> the corpus and the collection of the
  system are what they were before, and \<open>search_documents\<close> and
  \<open>generate_answer_hf\<close> leave the whole object unchanged. (\<open>_fallback_answer\<close> reads
  no attribute of the object: it is a function of its arguments.)
\<close>

theorem query_path_read_only:
  "corpus (state_after (ask E self question use_llm history)) = corpus self
   \<and> collection (state_after (ask E self question use_llm history)) = collection self
   \<and> state_after (search_documents E self query n_results) = self
   \<and> state_after (generate_answer_hf E self question context_docs history) = self"
proof -
  have a: "state_after (ask E self question use_llm history) = self"
    by (rule state_after_ask)
  have s: "state_after (search_documents E self query n_results) = self"
    by (rule state_after_search_documents)
  have g: "state_after (generate_answer_hf E self question context_docs history) = self"
    by (rule state_after_generate_answer_hf)
  from a have "corpus (state_after (ask E self question use_llm history)) = corpus self"
    and "collection (state_after (ask E self question use_llm history)) = collection self"
    by simp_all
  with s g show ?thesis by (intro conjI)
qed

theorem query_path_read_only_witness:
  "corpus (state_after (ask (sample_env [row_arch, row_cult] (Inl [])) (sample_rag None)
       (u ''griot'') None None)) = corpus (sample_rag None)
   \<and> collection (state_after (ask (sample_env [row_arch, row_cult] (Inl [])) (sample_rag None)
       (u ''griot'') None None)) = collection (sample_rag None)
   \<and> state_after (search_documents (sample_env [row_arch, row_cult] (Inl [])) (sample_rag None)
       (u ''griot'') 5) = sample_rag None
   \<and> state_after (generate_answer_hf (sample_env [row_arch, row_cult] (Inl []))
       (sample_rag None) (u ''griot'') [mk_document row_cult] None) = sample_rag None"
  by (rule query_path_read_only)




text \<open>
  C8. The corpus kept at initialisation is the first 100 documents of the corpus file
  (the whole file when it has no more than 100), so in every state the server can reach
  the \<open>total_documents\<close> of the health endpoint, and of the stats endpoint when it
  answers, is at most 100.
\<close>

theorem corpus_capped_at_100:
  assumes "corpus_file W = Inr full_corpus" and "reachable W E rag_system"
  shows "health_total_documents (health_check rag_system) \<le> 100
       \<and> (\<forall>r. get_stats rag_system = Inr r \<longrightarrow> stats_total_documents r \<le> 100)
       \<and> (\<forall>self. rag_system = Some self \<longrightarrow> corpus self = take 100 full_corpus)"
proof (cases rag_system)
  case None
  then show ?thesis by (simp add: health_check_def get_stats_def)
next
  case (Some self)
  have c: "corpus self = take 100 full_corpus"
    using assms(2,1) Some by (rule reachable_corpus)
  then have l: "length (corpus self) \<le> 100" by simp
  have "health_total_documents (health_check rag_system) \<le> 100"
    using l Some by (simp add: health_check_def)
  moreover have "\<forall>r. get_stats rag_system = Inr r \<longrightarrow> stats_total_documents r \<le> 100"
    using l Some by (auto simp add: get_stats_def Let_def)
  moreover have "\<forall>s. rag_system = Some s \<longrightarrow> corpus s = take 100 full_corpus"
    using c Some by simp
  ultimately show ?thesis by (intro conjI)
qed

theorem corpus_capped_at_100_witness:
  "corpus_file sample_inputs = Inr (replicate 101 [(u ''category'', u ''culture'')])
   \<and> reachable sample_inputs (sample_env [] (Inl [])) (Some started_rag)
   \<and> health_total_documents (health_check (Some started_rag)) = 100
   \<and> corpus started_rag = take 100 (replicate 101 [(u ''category'', u ''culture'')])"
proof -
  have h1: "corpus_file sample_inputs = Inr (replicate 101 [(u ''category'', u ''culture'')])"
    by (simp add: sample_inputs_def)
  have h2: "reachable sample_inputs (sample_env [] (Inl [])) (Some started_rag)"
    by (rule reachable.started) (rule startup_sample)
  have h3: "health_total_documents (health_check (Some started_rag)) = 100"
    by (simp add: health_check_def started_rag_def)
  from corpus_capped_at_100[OF h1 h2] have "corpus started_rag
      = take 100 (replicate 101 [(u ''category'', u ''culture'')])" by simp
  with h1 h2 h3 show ?thesis by (intro conjI)
qed

text \<open>
  C9, as stated, fails when the system is not initialised: the first guard of the
  endpoint answers 503 before the length of the question is looked at.
\<close>

theorem chat_short_question_counterexample:
  "length (strip (req_question short_request)) < 3
   \<and> returned (chat (sample_env [row_arch, row_cult] (Inl [])) None short_request)
      = Inl (HTTPException 503 (u ''Syst'' @ [232] @ u ''me RAG non initialis'' @ [233]))
   \<and> returned (chat (sample_env [row_arch, row_cult] (Inl [])) None short_request)
      \<noteq> Inl (HTTPException 400 (u ''Question trop courte''))"
  by (simp add: short_request_def strip_hi length_hi chat_def returned_def)

text \<open>
  C9, amended. The chat endpoint rejects every request whose question, once stripped,
  is shorter than 3 characters, with no external call and no answer and with the global
  unchanged, so \<open>ask\<close> is not invoked: the status is 400 when the system is
  initialised and 503 when it is not.
\<close>

theorem chat_rejects_short_question:
  assumes "length (strip (req_question request)) < 3"
  shows "chat E rag_system request
         = (Inl (case rag_system of
                   None \<Rightarrow> HTTPException 503
                             (u ''Syst'' @ [232] @ u ''me RAG non initialis'' @ [233])
                 | Some self \<Rightarrow> HTTPException 400 (u ''Question trop courte'')),
            [], rag_system)"
  using assms by (cases rag_system) (simp_all add: chat_def)

theorem chat_rejects_short_question_witness:
  "length (strip (req_question short_request)) < 3
   \<and> chat (sample_env [row_arch, row_cult] (Inl [])) (Some (sample_rag None)) short_request
      = (Inl (HTTPException 400 (u ''Question trop courte'')), [], Some (sample_rag None))"
proof -
  have h: "length (strip (req_question short_request)) < 3"
    by (simp add: short_request_def strip_hi length_hi)
  from h chat_rejects_short_question[OF h, of "sample_env [row_arch, row_cult] (Inl [])"
      "Some (sample_rag None)"]
  show ?thesis by simp
qed

text \<open>
  C10. For every question whose lowercased and stripped text is one of the simple
  greetings, \<open>ask\<close> returns the fixed greeting answer with an empty list of sources,
  makes no call to the vector store or to the language model, and leaves the object
  as it was.
\<close>

theorem ask_greeting:
  assumes "strip (str_lower E question) \<in> set simple_greetings"
  shows "ask E self question use_llm history
         = (Inr \<lparr>res_question = question, res_answer = greeting_answer, res_sources = []\<rparr>,
            [], self)"
proof -
  let ?question_lower = "strip (str_lower E question)"
  from assms have "?question_lower \<in> set simple_greetings
      \<or> list_ex (\<lambda>g. g = ?question_lower) simple_greetings" ..
  then show ?thesis
    by (simp only: ask_def Let_def if_True)
qed

theorem ask_greeting_witness:
  "strip (str_lower (sample_env [row_arch, row_cult] (Inl [])) (u '' Bonjour ''))
     \<in> set simple_greetings
   \<and> ask (sample_env [row_arch, row_cult] (Inl [])) (sample_rag (Some (Client (u ''k''))))
        (u '' Bonjour '') None None
      = (Inr \<lparr>res_question = u '' Bonjour '', res_answer = greeting_answer, res_sources = []\<rparr>,
         [], sample_rag (Some (Client (u ''k''))))"
proof -
  have h: "strip (str_lower (sample_env [row_arch, row_cult] (Inl [])) (u '' Bonjour ''))
             \<in> set simple_greetings"
    by (simp add: sample_env_def bonjour_greeting bonjour_in_greetings)
  from h ask_greeting[OF h] show ?thesis by (intro conjI)
qed

end
